theory Spec2Isabelle
  imports Main "HOL-Library.Word" "HOL-Library.Sublist"
begin

section \<open>ElastiCache replication group: the reconciliation engine\<close>

text \<open>
  A shallow embedding of the replication group resource
  (\<^verbatim>\<open>resourceReplicationGroupCreate\<close>, \<^verbatim>\<open>resourceReplicationGroupUpdate\<close>,
  \<^verbatim>\<open>resourceReplicationGroupDelete\<close>, the shard configuration helpers and the finder).
  Remote calls and waiters are interactions with an environment: the environment answers
  the k-th interaction of a run, and every interaction is appended to a log, so that the
  order of the remote calls of a run can be read off the final state.
\<close>

subsection \<open>Errors and diagnostics\<close>

text \<open>
  The typed faults of the remote client that the resource inspects, and Go's \<^verbatim>\<open>error\<close>
  values. \<^verbatim>\<open>fmt.Errorf("...: %w", err)\<close> keeps the cause in the chain that
  \<^verbatim>\<open>errors.As\<close> walks, \<^verbatim>\<open>fmt.Errorf("...: %s", err)\<close> keeps its text only.
  A nil error is \<open>None\<close>.
\<close>

datatype fault_type =
    InvalidParameterCombinationException
  | InvalidParameterValueException
  | InvalidReplicationGroupStateFault
  | InvalidGlobalReplicationGroupStateFault
  | ReplicationGroupNotFoundFault
  | GlobalReplicationGroupNotFoundFault
  | UnsupportedOperation
  | OtherFault

datatype go_error =
    APIError fault_type string
  | ErrorString string
  | ErrorfW string go_error
  | ErrorfS string go_error
  | NotFoundError go_error
  | EmptyResultError
  | TooManyResultsError nat
  | TimeoutError string
  | UnexpectedStateError string

text \<open>
  \<open>TimeoutError st\<close> and \<open>UnexpectedStateError st\<close> are the two errors of a waiter,
  each with the last state it observed.
  \<^verbatim>\<open>errs.IsA[T](err)\<close>: some error of the chain is a fault of type \<open>T\<close>.
\<close>

fun IsA_chain :: "fault_type \<Rightarrow> go_error \<Rightarrow> bool" where
  "IsA_chain T (APIError c m) = (c = T)"
| "IsA_chain T (ErrorfW ctx e) = IsA_chain T e"
| "IsA_chain T (NotFoundError e) = IsA_chain T e"
| "IsA_chain T (ErrorString m) = False"
| "IsA_chain T (ErrorfS ctx e) = False"
| "IsA_chain T EmptyResultError = False"
| "IsA_chain T (TooManyResultsError n) = False"
| "IsA_chain T (TimeoutError st) = False"
| "IsA_chain T (UnexpectedStateError st) = False"

definition IsA :: "fault_type \<Rightarrow> go_error option \<Rightarrow> bool" where
  "IsA T err = (case err of None \<Rightarrow> False | Some e \<Rightarrow> IsA_chain T e)"

text \<open>\<^verbatim>\<open>strings.HasPrefix\<close> and \<^verbatim>\<open>strings.Contains\<close>.\<close>

fun strings_HasPrefix :: "string \<Rightarrow> string \<Rightarrow> bool" where
  "strings_HasPrefix s [] = True"
| "strings_HasPrefix [] (p # ps) = False"
| "strings_HasPrefix (c # cs) (p # ps) = (c = p \<and> strings_HasPrefix cs ps)"

fun strings_Contains :: "string \<Rightarrow> string \<Rightarrow> bool" where
  "strings_Contains [] substr = (substr = [])"
| "strings_Contains (c # cs) substr =
     (strings_HasPrefix (c # cs) substr \<or> strings_Contains cs substr)"

text \<open>
  Modelled from the spec: \<^verbatim>\<open>errs.IsAErrorMessageContains[T](err, needle)\<close> of the
  package \<^verbatim>\<open>internal/errs\<close> (the fault "whose message contains" the text): the chain
  holds a fault of type \<open>T\<close> and that fault's message contains \<open>needle\<close>.
\<close>

fun IsAErrorMessageContains_chain :: "fault_type \<Rightarrow> go_error \<Rightarrow> string \<Rightarrow> bool" where
  "IsAErrorMessageContains_chain T (APIError c m) needle = (c = T \<and> strings_Contains m needle)"
| "IsAErrorMessageContains_chain T (ErrorfW ctx e) needle = IsAErrorMessageContains_chain T e needle"
| "IsAErrorMessageContains_chain T (NotFoundError e) needle = IsAErrorMessageContains_chain T e needle"
| "IsAErrorMessageContains_chain T (ErrorString m) needle = False"
| "IsAErrorMessageContains_chain T (ErrorfS ctx e) needle = False"
| "IsAErrorMessageContains_chain T EmptyResultError needle = False"
| "IsAErrorMessageContains_chain T (TooManyResultsError n) needle = False"
| "IsAErrorMessageContains_chain T (TimeoutError st) needle = False"
| "IsAErrorMessageContains_chain T (UnexpectedStateError st) needle = False"

definition IsAErrorMessageContains :: "fault_type \<Rightarrow> go_error option \<Rightarrow> string \<Rightarrow> bool" where
  "IsAErrorMessageContains T err needle =
     (case err of None \<Rightarrow> False | Some e \<Rightarrow> IsAErrorMessageContains_chain T e needle)"

text \<open>
  A diagnostic of severity error; its text is kept as the error value it was made from.
  \<^verbatim>\<open>sdkdiag.AppendErrorf(diags, "ctx: %s", err)\<close> formats the cause with \<^verbatim>\<open>%s\<close>.
\<close>

datatype diagnostic = ErrorDiagnostic go_error

type_synonym diagnostics = "diagnostic list"

definition AppendErrorf :: "diagnostics \<Rightarrow> string \<Rightarrow> go_error \<Rightarrow> diagnostics" where
  "AppendErrorf diags ctx err = diags @ [ErrorDiagnostic (ErrorfS ctx err)]"

definition AppendErrorMessage :: "diagnostics \<Rightarrow> string \<Rightarrow> diagnostics" where
  "AppendErrorMessage diags msg = diags @ [ErrorDiagnostic (ErrorString msg)]"

definition AppendFromErr :: "diagnostics \<Rightarrow> go_error \<Rightarrow> diagnostics" where
  "AppendFromErr diags err = diags @ [ErrorDiagnostic err]"

subsection \<open>Requests\<close>

text \<open>
  Durations are in milliseconds. \<^verbatim>\<open>int32(n)\<close> truncates Go's \<^verbatim>\<open>int\<close> to 32 bits:
  the field is a \<open>32 word\<close>, read with \<open>sint\<close>.
\<close>

type_synonym duration = nat

definition Second :: duration where
  "Second = 1000"

definition Minute :: duration where
  "Minute = 60 * Second"

definition int32 :: "int \<Rightarrow> 32 word" where
  "int32 n = word_of_int n"

record ModifyReplicationGroupShardConfigurationInput =
  ApplyImmediately :: "bool option"
  NodeGroupCount :: "32 word option"
  NodeGroupsToRemove :: "string list"
  ReplicationGroupId :: "string option"

record ReplicaCountInput =
  rc_ApplyImmediately :: "bool option"
  rc_NewReplicaCount :: "32 word option"
  rc_ReplicationGroupId :: "string option"

text \<open>
  \<^verbatim>\<open>elasticache.ModifyReplicationGroupInput\<close>. Of its optional fields the model keeps
  the ones a branch of the update decides on (engine, engine version, the auth token
  pair); the others carry the new value of one attribute each and no branch reads them.
\<close>

record ModifyReplicationGroupInput =
  mi_ApplyImmediately :: "bool option"
  mi_ReplicationGroupId :: "string option"
  mi_Engine :: "string option"
  mi_EngineVersion :: "string option"
  mi_AuthToken :: "string option"
  mi_AuthTokenUpdateStrategy :: "string option"

type_synonym tags = "(string \<times> string) list"

record CreateReplicationGroupInput =
  ci_ReplicationGroupId :: "string option"
  ci_Tags :: "tags option"
  ci_GlobalReplicationGroupId :: "string option"
  ci_CacheNodeType :: "string option"
  ci_Engine :: "string option"

record DeleteReplicationGroupInput =
  di_ReplicationGroupId :: "string option"
  di_FinalSnapshotIdentifier :: "string option"

record DisassociateGlobalReplicationGroupInput =
  dg_GlobalReplicationGroupId :: "string option"
  dg_ReplicationGroupId :: "string option"
  dg_ReplicationGroupRegion :: "string option"

text \<open>
  One interaction with the environment: a call of the remote client, one of the waiters
  (each polls the finder until the status is reached or its timeout expires; the polling
  itself is inside \<^verbatim>\<open>retry.StateChangeConf\<close>), or the read that ends Create and Update.
\<close>

datatype action =
    CreateReplicationGroup CreateReplicationGroupInput
  | ModifyReplicationGroup ModifyReplicationGroupInput
  | ModifyReplicationGroupShardConfiguration ModifyReplicationGroupShardConfigurationInput
  | IncreaseReplicaCount ReplicaCountInput
  | DecreaseReplicaCount ReplicaCountInput
  | DeleteReplicationGroup DeleteReplicationGroupInput
  | DisassociateGlobalReplicationGroup DisassociateGlobalReplicationGroupInput
  | CreateTags string tags
  | DeleteParameterGroup string
  | WaitReplicationGroupAvailable string duration duration
  | WaitReplicationGroupMemberClustersAvailable string duration
  | WaitReplicationGroupDeleted string duration
  | WaitGlobalReplicationGroupAvailable string
  | WaitGlobalReplicationGroupMemberDetached string string duration
  | ReadReplicationGroup string

record replication_group_output =
  out_ReplicationGroupId :: string
  out_ARN :: string

text \<open>
  The environment: the error (or nil) it answers to the k-th interaction, how long that
  interaction takes beyond one millisecond, the replication group a successful creation
  returns and the diagnostics of a read.
\<close>

record remote =
  respond :: "nat \<Rightarrow> action \<Rightarrow> go_error option"
  latency :: "nat \<Rightarrow> duration"
  created :: "nat \<Rightarrow> replication_group_output"
  read_diags :: "nat \<Rightarrow> diagnostics"

record world =
  log :: "(action \<times> go_error option) list"
  clock :: duration

definition perform :: "remote \<Rightarrow> action \<Rightarrow> world \<Rightarrow> go_error option \<times> world" where
  "perform env a w =
     (let k = length (log w); r = respond env k a
      in (r, \<lparr>log = log w @ [(a, r)], clock = clock w + Suc (latency env k)\<rparr>))"

text \<open>The interactions of a run that started in \<open>w\<close> and ended in \<open>w'\<close>.\<close>

definition since :: "world \<Rightarrow> world \<Rightarrow> (action \<times> go_error option) list" where
  "since w w' = drop (length (log w)) (log w')"

subsection \<open>The schema and the resource data\<close>

text \<open>
  The attribute names of the package \<^verbatim>\<open>names\<close> that the resource uses, and the two
  engine names (\<^verbatim>\<open>engineRedis\<close>, \<^verbatim>\<open>engineValkey\<close>): constants declared outside the
  sources at hand, with the values the error texts and the specification give them.
\<close>

definition AttrApplyImmediately :: string where "AttrApplyImmediately = ''apply_immediately''"
definition AttrAutoMinorVersionUpgrade :: string where "AttrAutoMinorVersionUpgrade = ''auto_minor_version_upgrade''"
definition AttrDescription :: string where "AttrDescription = ''description''"
definition AttrEngine :: string where "AttrEngine = ''engine''"
definition AttrEngineVersion :: string where "AttrEngineVersion = ''engine_version''"
definition AttrFinalSnapshotIdentifier :: string where "AttrFinalSnapshotIdentifier = ''final_snapshot_identifier''"
definition AttrParameterGroupName :: string where "AttrParameterGroupName = ''parameter_group_name''"
definition AttrSecurityGroupIDs :: string where "AttrSecurityGroupIDs = ''security_group_ids''"
definition AttrTags :: string where "AttrTags = ''tags''"
definition AttrTagsAll :: string where "AttrTagsAll = ''tags_all''"

definition engineRedis :: string where "engineRedis = ''redis''"
definition engineValkey :: string where "engineValkey = ''valkey''"

datatype schema_type =
  TypeBool | TypeInt | TypeString | TypeList | TypeSet | TypeSetOfResource | TypeMap

text \<open>
  The \<^verbatim>\<open>Schema\<close> map of \<^verbatim>\<open>resourceReplicationGroup\<close>: every attribute with its type
  (\<^verbatim>\<open>nullable.TypeNullableBool\<close> is a string).
\<close>

definition resourceReplicationGroup_Schema :: "(string \<times> schema_type) list" where
  "resourceReplicationGroup_Schema =
    [(''apply_immediately'', TypeBool),
     (''arn'', TypeString),
     (''at_rest_encryption_enabled'', TypeString),
     (''auth_token'', TypeString),
     (''auth_token_update_strategy'', TypeString),
     (''auto_minor_version_upgrade'', TypeString),
     (''automatic_failover_enabled'', TypeBool),
     (''cluster_enabled'', TypeBool),
     (''cluster_mode'', TypeString),
     (''configuration_endpoint_address'', TypeString),
     (''data_tiering_enabled'', TypeBool),
     (''description'', TypeString),
     (''engine'', TypeString),
     (''engine_version'', TypeString),
     (''engine_version_actual'', TypeString),
     (''final_snapshot_identifier'', TypeString),
     (''global_replication_group_id'', TypeString),
     (''ip_discovery'', TypeString),
     (''kms_key_id'', TypeString),
     (''log_delivery_configuration'', TypeSetOfResource),
     (''maintenance_window'', TypeString),
     (''member_clusters'', TypeSet),
     (''multi_az_enabled'', TypeBool),
     (''network_type'', TypeString),
     (''node_type'', TypeString),
     (''notification_topic_arn'', TypeString),
     (''num_cache_clusters'', TypeInt),
     (''num_node_groups'', TypeInt),
     (''parameter_group_name'', TypeString),
     (''port'', TypeInt),
     (''preferred_cache_cluster_azs'', TypeList),
     (''primary_endpoint_address'', TypeString),
     (''reader_endpoint_address'', TypeString),
     (''replicas_per_node_group'', TypeInt),
     (''replication_group_id'', TypeString),
     (''security_group_names'', TypeSet),
     (''security_group_ids'', TypeSet),
     (''snapshot_arns'', TypeSet),
     (''snapshot_retention_limit'', TypeInt),
     (''snapshot_window'', TypeString),
     (''snapshot_name'', TypeString),
     (''subnet_group_name'', TypeString),
     (''tags'', TypeMap),
     (''tags_all'', TypeMap),
     (''transit_encryption_enabled'', TypeBool),
     (''transit_encryption_mode'', TypeString),
     (''user_group_ids'', TypeSet)]"

datatype timeout_key = TimeoutCreate | TimeoutUpdate | TimeoutDelete

text \<open>A value of the raw configuration: not known at plan time, null, or a number.\<close>

datatype cty_value = CtyUnknown | CtyNull | CtyNumber int

text \<open>
  \<^verbatim>\<open>schema.ResourceData\<close>: the identifier, the configured timeouts and, for every
  attribute, its old and its new value, in the Go type of the attribute's schema type.
  An element of a set of nested resources is the list of its fields.
\<close>

record resource_data =
  Id :: string
  Timeout :: "timeout_key \<Rightarrow> duration"
  bools :: "string \<Rightarrow> bool \<times> bool"
  ints :: "string \<Rightarrow> int \<times> int"
  strs :: "string \<Rightarrow> string \<times> string"
  lists :: "string \<Rightarrow> string list \<times> string list"
  sets :: "string \<Rightarrow> string set \<times> string set"
  resource_sets :: "string \<Rightarrow> (string \<times> string) list set \<times> (string \<times> string) list set"
  maps :: "string \<Rightarrow> (string \<rightharpoonup> string) \<times> (string \<rightharpoonup> string)"
  RawConfig :: "string \<Rightarrow> cty_value"

definition changed :: "'a \<times> 'a \<Rightarrow> bool" where
  "changed c = (fst c \<noteq> snd c)"

text \<open>\<^verbatim>\<open>d.HasChange(key)\<close>: the old and the new value of the attribute differ.\<close>

definition HasChange :: "resource_data \<Rightarrow> string \<Rightarrow> bool" where
  "HasChange d key =
     (case map_of resourceReplicationGroup_Schema key of
        None \<Rightarrow> False
      | Some TypeBool \<Rightarrow> changed (bools d key)
      | Some TypeInt \<Rightarrow> changed (ints d key)
      | Some TypeString \<Rightarrow> changed (strs d key)
      | Some TypeList \<Rightarrow> changed (lists d key)
      | Some TypeSet \<Rightarrow> changed (sets d key)
      | Some TypeSetOfResource \<Rightarrow> changed (resource_sets d key)
      | Some TypeMap \<Rightarrow> changed (maps d key))"

definition HasChanges :: "resource_data \<Rightarrow> string list \<Rightarrow> bool" where
  "HasChanges d keys = list_ex (HasChange d) keys"

definition HasChangesExcept :: "resource_data \<Rightarrow> string list \<Rightarrow> bool" where
  "HasChangesExcept d keys =
     list_ex (\<lambda>attr. \<not> List.member keys attr \<and> HasChange d attr)
       (map fst resourceReplicationGroup_Schema)"

text \<open>
  \<^verbatim>\<open>d.GetChange\<close>, \<^verbatim>\<open>d.Get\<close> (the new value) and \<^verbatim>\<open>d.GetOk\<close> (the new value, and
  whether it is not the zero value of its type), followed by the type assertion the
  source makes on the result.
\<close>

definition GetChangeInt :: "resource_data \<Rightarrow> string \<Rightarrow> int \<times> int" where
  "GetChangeInt d key = ints d key"

definition GetChangeString :: "resource_data \<Rightarrow> string \<Rightarrow> string \<times> string" where
  "GetChangeString d key = strs d key"

definition GetChangeSet :: "resource_data \<Rightarrow> string \<Rightarrow> string set \<times> string set" where
  "GetChangeSet d key = sets d key"

definition GetBool :: "resource_data \<Rightarrow> string \<Rightarrow> bool" where
  "GetBool d key = snd (bools d key)"

definition GetString :: "resource_data \<Rightarrow> string \<Rightarrow> string" where
  "GetString d key = snd (strs d key)"

definition GetOkString :: "resource_data \<Rightarrow> string \<Rightarrow> string \<times> bool" where
  "GetOkString d key = (snd (strs d key), snd (strs d key) \<noteq> [])"

definition GetOkSet :: "resource_data \<Rightarrow> string \<Rightarrow> string set \<times> bool" where
  "GetOkSet d key = (snd (sets d key), snd (sets d key) \<noteq> {})"

definition GetOkMap :: "resource_data \<Rightarrow> string \<Rightarrow> (string \<rightharpoonup> string) \<times> bool" where
  "GetOkMap d key = (snd (maps d key), dom (snd (maps d key)) \<noteq> {})"

subsection \<open>Shard configuration\<close>

text \<open>
  \<^verbatim>\<open>fmt.Sprintf("%04d", i)\<close>: the decimal digits of \<open>i\<close>, padded with zeros to four
  characters; the sign of a negative number is one of the four.
\<close>

fun decimal :: "nat \<Rightarrow> string" where
  "decimal n =
     (if n < 10 then [char_of (48 + n)] else decimal (n div 10) @ [char_of (48 + n mod 10)])"

declare decimal.simps [simp del]

definition Sprintf_04d :: "int \<Rightarrow> string" where
  "Sprintf_04d i =
     (let ds = decimal (nat \<bar>i\<bar>)
      in if i < 0 then CHR ''-'' # replicate (3 - length ds) CHR ''0'' @ ds
         else replicate (4 - length ds) CHR ''0'' @ ds)"

text \<open>\<^verbatim>\<open>%d\<close> of \<^verbatim>\<open>fmt\<close>.\<close>

definition Sprintf_d :: "int \<Rightarrow> string" where
  "Sprintf_d i = (if i < 0 then CHR ''-'' # decimal (nat \<bar>i\<bar>) else decimal (nat i))"

text \<open>
  The loop of \<^verbatim>\<open>modifyReplicationGroupShardConfigurationNumNodeGroups\<close>:
  \<^verbatim>\<open>for i := oldNodeGroupCount; i > newNodeGroupCount; i--\<close>.
\<close>

function nodeGroupsToRemove_loop :: "int \<Rightarrow> int \<Rightarrow> string list \<Rightarrow> string list" where
  "nodeGroupsToRemove_loop i newNodeGroupCount nodeGroupsToRemove =
     (if i > newNodeGroupCount
      then nodeGroupsToRemove_loop (i - 1) newNodeGroupCount (nodeGroupsToRemove @ [Sprintf_04d i])
      else nodeGroupsToRemove)"
  by pat_completeness auto
termination
  by (relation "measure (\<lambda>(i, n, acc). nat (i - n))") auto

declare nodeGroupsToRemove_loop.simps [simp del]

definition modifyReplicationGroupShardConfigurationNumNodeGroups ::
  "remote \<Rightarrow> resource_data \<Rightarrow> string \<Rightarrow> world \<Rightarrow> go_error option \<times> world" where
  "modifyReplicationGroupShardConfigurationNumNodeGroups env d argument w =
     (let (oldNodeGroupCount, newNodeGroupCount) = GetChangeInt d argument;
          input = \<lparr>ApplyImmediately = Some True,
                   NodeGroupCount = Some (int32 newNodeGroupCount),
                   NodeGroupsToRemove = [],
                   ReplicationGroupId = Some (Id d)\<rparr>;
          input = (if oldNodeGroupCount > newNodeGroupCount
                   then input\<lparr>NodeGroupsToRemove :=
                          nodeGroupsToRemove_loop oldNodeGroupCount newNodeGroupCount []\<rparr>
                   else input);
          (err, w1) = perform env (ModifyReplicationGroupShardConfiguration input) w
      in case err of
           Some e \<Rightarrow>
             (Some (ErrorfW (''modifying ElastiCache Replication Group ('' @ Id d
                              @ '') shard configuration'') e), w1)
         | None \<Rightarrow>
             (let (err, w2) = perform env
                    (WaitReplicationGroupAvailable (Id d) (Timeout d TimeoutUpdate) (30 * Second)) w1
              in case err of
                   Some e \<Rightarrow>
                     (Some (ErrorfW (''waiting for ElastiCache Replication Group ('' @ Id d
                                      @ '') update'') e), w2)
                 | None \<Rightarrow> (None, w2)))"

definition modifyReplicationGroupShardConfigurationReplicasPerNodeGroup ::
  "remote \<Rightarrow> resource_data \<Rightarrow> string \<Rightarrow> world \<Rightarrow> go_error option \<times> world" where
  "modifyReplicationGroupShardConfigurationReplicasPerNodeGroup env d argument w =
     (let (oldReplicaCount, newReplicaCount) = GetChangeInt d argument;
          input = \<lparr>rc_ApplyImmediately = Some True,
                   rc_NewReplicaCount = Some (int32 newReplicaCount),
                   rc_ReplicationGroupId = Some (Id d)\<rparr>;
          wait = WaitReplicationGroupAvailable (Id d) (Timeout d TimeoutUpdate) (30 * Second);
          waiting = ''waiting for ElastiCache Replication Group ('' @ Id d @ '') update''
      in if newReplicaCount > oldReplicaCount then
           (let (err, w1) = perform env (IncreaseReplicaCount input) w
            in case err of
                 Some e \<Rightarrow>
                   (Some (ErrorfW (''increasing ElastiCache Replication Group ('' @ Id d
                                    @ '') replica count ('' @ Sprintf_d newReplicaCount @ '')'') e), w1)
               | None \<Rightarrow>
                   (let (err, w2) = perform env wait w1
                    in case err of
                         Some e \<Rightarrow> (Some (ErrorfW waiting e), w2)
                       | None \<Rightarrow> (None, w2)))
         else if newReplicaCount < oldReplicaCount then
           (let (err, w1) = perform env (DecreaseReplicaCount input) w
            in case err of
                 Some e \<Rightarrow>
                   (Some (ErrorfW (''decreasing ElastiCache Replication Group ('' @ Id d
                                    @ '') replica count ('' @ Sprintf_d newReplicaCount @ '')'') e), w1)
               | None \<Rightarrow>
                   (let (err, w2) = perform env wait w1
                    in case err of
                         Some e \<Rightarrow> (Some (ErrorfW waiting e), w2)
                       | None \<Rightarrow> (None, w2)))
         else (None, w))"

definition modifyReplicationGroupShardConfiguration ::
  "remote \<Rightarrow> resource_data \<Rightarrow> world \<Rightarrow> go_error option \<times> world" where
  "modifyReplicationGroupShardConfiguration env d w =
     (let (err, w1) =
            (if HasChange d ''num_node_groups''
             then modifyReplicationGroupShardConfigurationNumNodeGroups env d ''num_node_groups'' w
             else (None, w))
      in case err of
           Some e \<Rightarrow> (Some e, w1)
         | None \<Rightarrow>
             (if HasChange d ''replicas_per_node_group''
              then modifyReplicationGroupShardConfigurationReplicasPerNodeGroup env d
                     ''replicas_per_node_group'' w1
              else (None, w1)))"

definition increaseReplicationGroupReplicaCount ::
  "remote \<Rightarrow> string \<Rightarrow> int \<Rightarrow> duration \<Rightarrow> world \<Rightarrow> go_error option \<times> world" where
  "increaseReplicationGroupReplicaCount env replicationGroupID newReplicaCount timeout w =
     (let input = \<lparr>rc_ApplyImmediately = Some True,
                   rc_NewReplicaCount = Some (int32 (newReplicaCount - 1)),
                   rc_ReplicationGroupId = Some replicationGroupID\<rparr>;
          (err, w1) = perform env (IncreaseReplicaCount input) w
      in case err of
           Some e \<Rightarrow>
             (Some (ErrorfW (''increasing ElastiCache Replication Group ('' @ replicationGroupID
                              @ '') replica count ('' @ Sprintf_d (newReplicaCount - 1) @ '')'') e), w1)
         | None \<Rightarrow>
             (let (err, w2) = perform env
                    (WaitReplicationGroupMemberClustersAvailable replicationGroupID timeout) w1
              in case err of
                   Some e \<Rightarrow>
                     (Some (ErrorfW (''waiting for ElastiCache Replication Group (''
                                      @ replicationGroupID @ '') member cluster update'') e), w2)
                 | None \<Rightarrow> (None, w2)))"

definition decreaseReplicationGroupReplicaCount ::
  "remote \<Rightarrow> string \<Rightarrow> int \<Rightarrow> duration \<Rightarrow> world \<Rightarrow> go_error option \<times> world" where
  "decreaseReplicationGroupReplicaCount env replicationGroupID newReplicaCount timeout w =
     (let input = \<lparr>rc_ApplyImmediately = Some True,
                   rc_NewReplicaCount = Some (int32 (newReplicaCount - 1)),
                   rc_ReplicationGroupId = Some replicationGroupID\<rparr>;
          (err, w1) = perform env (DecreaseReplicaCount input) w
      in case err of
           Some e \<Rightarrow>
             (Some (ErrorfW (''decreasing ElastiCache Replication Group ('' @ replicationGroupID
                              @ '') replica count ('' @ Sprintf_d (newReplicaCount - 1) @ '')'') e), w1)
         | None \<Rightarrow>
             (let (err, w2) = perform env
                    (WaitReplicationGroupMemberClustersAvailable replicationGroupID timeout) w1
              in case err of
                   Some e \<Rightarrow>
                     (Some (ErrorfW (''waiting for ElastiCache Replication Group (''
                                      @ replicationGroupID @ '') member cluster update'') e), w2)
                 | None \<Rightarrow> (None, w2)))"

subsection \<open>Update\<close>

definition squote :: "string \<Rightarrow> string" where
  "squote s = CHR 0x27 # s @ [CHR 0x27]"

definition dquote :: "string \<Rightarrow> string" where
  "dquote s = CHR 0x22 # s @ [CHR 0x22]"

text \<open>\<^verbatim>\<open>nullable.Bool(v).ValueBool()\<close> reports null for the empty string.\<close>

definition nullable_null :: "string \<Rightarrow> bool" where
  "nullable_null v = (v = [])"

text \<open>
  The part of \<^verbatim>\<open>resourceReplicationGroupUpdate\<close> that fills the request of the
  standard update and sets \<^verbatim>\<open>requestUpdate\<close>, branch by branch in the order of the
  source. The engine branch returns a diagnostic from the middle of it.
\<close>

definition resourceReplicationGroupUpdate_input ::
  "resource_data \<Rightarrow> diagnostics + (ModifyReplicationGroupInput \<times> bool)" where
  "resourceReplicationGroupUpdate_input d =
     (let diags = [];
          requestUpdate = False;
          input = \<lparr>mi_ApplyImmediately = Some (GetBool d AttrApplyImmediately),
                   mi_ReplicationGroupId = Some (Id d),
                   mi_Engine = None,
                   mi_EngineVersion = None,
                   mi_AuthToken = None,
                   mi_AuthTokenUpdateStrategy = None\<rparr>;
          requestUpdate =
            (if HasChange d AttrAutoMinorVersionUpgrade
             then (let (v, ok) = GetOkString d AttrAutoMinorVersionUpgrade
                   in if ok then (if \<not> nullable_null v then True else requestUpdate)
                      else requestUpdate)
             else requestUpdate);
          requestUpdate = (if HasChange d ''automatic_failover_enabled'' then True else requestUpdate);
          requestUpdate = (if HasChange d AttrDescription then True else requestUpdate);
          requestUpdate = (if HasChange d ''cluster_mode'' then True else requestUpdate);
          (old, new) = GetChangeString d AttrEngine
      in if old = engineRedis \<and> new = engineValkey \<and> \<not> HasChange d AttrEngineVersion
         then Inl (AppendErrorMessage diags
                (''must explicitly set '' @ squote AttrEngineVersion
                 @ '' attribute for Replication Group ('' @ Id d
                 @ '') when updating engine to '' @ squote ''valkey''))
         else
          (let (input, requestUpdate) =
                 (if old = engineRedis \<and> new = engineValkey
                  then (input\<lparr>mi_Engine := Some (GetString d AttrEngine)\<rparr>, True)
                  else (input, requestUpdate));
               (input, requestUpdate) =
                 (if HasChange d AttrEngineVersion
                  then (input\<lparr>mi_EngineVersion := Some (GetString d AttrEngineVersion)\<rparr>, True)
                  else (input, requestUpdate));
               requestUpdate = (if HasChange d ''ip_discovery'' then True else requestUpdate);
               requestUpdate = (if HasChange d ''log_delivery_configuration'' then True else requestUpdate);
               requestUpdate = (if HasChange d ''maintenance_window'' then True else requestUpdate);
               requestUpdate = (if HasChange d ''multi_az_enabled'' then True else requestUpdate);
               requestUpdate = (if HasChange d ''network_type'' then True else requestUpdate);
               requestUpdate = (if HasChange d ''node_type'' then True else requestUpdate);
               requestUpdate = (if HasChange d ''notification_topic_arn'' then True else requestUpdate);
               requestUpdate = (if HasChange d AttrParameterGroupName then True else requestUpdate);
               requestUpdate =
                 (if HasChange d AttrSecurityGroupIDs
                  then (let (v, ok) = GetOkSet d AttrSecurityGroupIDs
                        in if ok \<and> v \<noteq> {} then True else requestUpdate)
                  else requestUpdate);
               requestUpdate =
                 (if HasChange d ''security_group_names''
                  then (let (v, ok) = GetOkSet d ''security_group_names''
                        in if ok \<and> v \<noteq> {} then True else requestUpdate)
                  else requestUpdate);
               requestUpdate = (if HasChange d ''snapshot_retention_limit'' then True else requestUpdate);
               requestUpdate = (if HasChange d ''snapshot_window'' then True else requestUpdate);
               requestUpdate = (if HasChange d ''transit_encryption_enabled'' then True else requestUpdate);
               requestUpdate = (if HasChange d ''transit_encryption_mode'' then True else requestUpdate);
               requestUpdate =
                 (if HasChange d ''user_group_ids''
                  then (let (os, ns) = GetChangeSet d ''user_group_ids'';
                            add = ns - os;
                            del = os - ns;
                            requestUpdate = (if add \<noteq> {} then True else requestUpdate);
                            requestUpdate = (if del \<noteq> {} then True else requestUpdate)
                        in requestUpdate)
                  else requestUpdate)
           in Inr (input, requestUpdate)))"

text \<open>
  The closures collected in \<^verbatim>\<open>updateFuncs\<close>, as the operations they are, each with
  what it captured.
\<close>

datatype update_op =
    ShardConfigurationOp
  | IncreaseReplicaCountOp int
  | ModifyOp ModifyReplicationGroupInput
  | AuthTokenOp ModifyReplicationGroupInput
  | DecreaseReplicaCountOp int

definition updateFuncs :: "resource_data \<Rightarrow> diagnostics + update_op list" where
  "updateFuncs d =
     (let fs = [];
          (oldCacheClusterCount, newCacheClusterCount) = GetChangeInt d ''num_cache_clusters'';
          fs = (if HasChanges d [''num_node_groups'', ''replicas_per_node_group'']
                then fs @ [ShardConfigurationOp]
                else if HasChange d ''num_cache_clusters''
                then (if newCacheClusterCount > oldCacheClusterCount
                      then fs @ [IncreaseReplicaCountOp newCacheClusterCount]
                      else fs)
                else fs)
      in case resourceReplicationGroupUpdate_input d of
           Inl diags \<Rightarrow> Inl diags
         | Inr (input, requestUpdate) \<Rightarrow>
             (let fs = (if requestUpdate then fs @ [ModifyOp input] else fs);
                  fs = (if HasChanges d [''auth_token'', ''auth_token_update_strategy'']
                        then fs @ [AuthTokenOp
                               \<lparr>mi_ApplyImmediately = Some True,
                                mi_ReplicationGroupId = Some (Id d),
                                mi_Engine = None,
                                mi_EngineVersion = None,
                                mi_AuthToken = Some (GetString d ''auth_token''),
                                mi_AuthTokenUpdateStrategy =
                                  Some (GetString d ''auth_token_update_strategy'')\<rparr>]
                        else fs);
                  fs = (if HasChange d ''num_cache_clusters''
                        then (if newCacheClusterCount < oldCacheClusterCount
                              then fs @ [DecreaseReplicaCountOp newCacheClusterCount]
                              else fs)
                        else fs)
              in Inr fs))"

text \<open>Calling one closure.\<close>

definition noModificationsRequested :: string where
  "noModificationsRequested = ''No modifications were requested''"

fun call_update_op ::
  "remote \<Rightarrow> resource_data \<Rightarrow> update_op \<Rightarrow> world \<Rightarrow> go_error option \<times> world" where
  "call_update_op env d ShardConfigurationOp w = modifyReplicationGroupShardConfiguration env d w"
| "call_update_op env d (IncreaseReplicaCountOp newCacheClusterCount) w =
     increaseReplicationGroupReplicaCount env (Id d) newCacheClusterCount (Timeout d TimeoutUpdate) w"
| "call_update_op env d (ModifyOp input) w =
     (let (err, w1) = perform env (ModifyReplicationGroup input) w
      in if IsAErrorMessageContains InvalidParameterCombinationException err noModificationsRequested
         then (None, w1)
         else case err of
                Some e \<Rightarrow>
                  (Some (ErrorfS (''modifying ElastiCache Replication Group ('' @ Id d @ '')'') e), w1)
              | None \<Rightarrow> (None, w1))"
| "call_update_op env d (AuthTokenOp authInput) w =
     (let (err, w1) = perform env (ModifyReplicationGroup authInput) w
      in if IsAErrorMessageContains InvalidParameterCombinationException err noModificationsRequested
         then (None, w1)
         else case err of
                Some e \<Rightarrow>
                  (Some (ErrorfS (''modifying ElastiCache Replication Group ('' @ Id d
                                   @ '') authentication'') e), w1)
              | None \<Rightarrow> (None, w1))"
| "call_update_op env d (DecreaseReplicaCountOp newCacheClusterCount) w =
     decreaseReplicationGroupReplicaCount env (Id d) newCacheClusterCount (Timeout d TimeoutUpdate) w"

text \<open>
  The loop \<^verbatim>\<open>for _, fn := range updateFuncs\<close>. Its result is \<open>Some\<close> of the
  diagnostics with which the function returns from inside the loop, or \<open>None\<close> when the
  loop ends.
\<close>

fun updateFuncs_loop ::
  "remote \<Rightarrow> resource_data \<Rightarrow> diagnostics \<Rightarrow> update_op list \<Rightarrow> world
     \<Rightarrow> diagnostics option \<times> world" where
  "updateFuncs_loop env d diags [] w = (None, w)"
| "updateFuncs_loop env d diags (fn # fns) w =
     (let (err, w1) = perform env
            (WaitReplicationGroupAvailable (Id d) (Timeout d TimeoutUpdate) (0 * Second)) w
      in case err of
           Some e \<Rightarrow>
             (Some (AppendErrorf diags (''waiting for ElastiCache Replication Group ('' @ Id d
                                         @ '') to become available'') e), w1)
         | None \<Rightarrow>
             (let (err, w2) = call_update_op env d fn w1
              in case err of
                   Some e \<Rightarrow> (Some (AppendFromErr diags e), w2)
                 | None \<Rightarrow>
                     (let (err, w3) = perform env
                            (WaitReplicationGroupAvailable (Id d) (Timeout d TimeoutUpdate)
                               (0 * Second)) w2
                      in case err of
                           Some e \<Rightarrow>
                             (Some (AppendErrorf diags
                                (''waiting for ElastiCache Replication Group ('' @ Id d
                                 @ '') update'') e), w3)
                         | None \<Rightarrow> updateFuncs_loop env d diags fns w3)))"

text \<open>
  \<^verbatim>\<open>resourceReplicationGroupRead\<close> calls the finder, a waiter and a describe call and
  changes nothing remotely; it is one interaction whose diagnostics the environment gives.
\<close>

definition resourceReplicationGroupRead ::
  "remote \<Rightarrow> resource_data \<Rightarrow> world \<Rightarrow> diagnostics \<times> world" where
  "resourceReplicationGroupRead env d w =
     (let k = length (log w);
          (err, w1) = perform env (ReadReplicationGroup (Id d)) w
      in (read_diags env k, w1))"

definition resourceReplicationGroupUpdate ::
  "remote \<Rightarrow> resource_data \<Rightarrow> world \<Rightarrow> diagnostics \<times> world" where
  "resourceReplicationGroupUpdate env d w =
     (let diags = []
      in if HasChangesExcept d [AttrTags, AttrTagsAll]
         then (case updateFuncs d of
                 Inl ds \<Rightarrow> (ds, w)
               | Inr fs \<Rightarrow>
                   (case updateFuncs_loop env d diags fs w of
                      (Some ds, w1) \<Rightarrow> (ds, w1)
                    | (None, w1) \<Rightarrow>
                        (let (rd, w2) = resourceReplicationGroupRead env d w1
                         in (diags @ rd, w2))))
         else (let (rd, w1) = resourceReplicationGroupRead env d w
               in (diags @ rd, w1)))"

text \<open>
  The function that \<^verbatim>\<open>CustomizeDiff\<close> gives to \<^verbatim>\<open>customdiff.ForceNewIf\<close> for the
  engine attribute: whether the change of the engine replaces the resource.
\<close>

definition engine_ForceNewIf :: "resource_data \<Rightarrow> bool" where
  "engine_ForceNewIf diff =
     (if \<not> HasChange diff AttrEngine then False
      else (let (old, new) = GetChangeString diff AttrEngine
            in if old = engineRedis \<and> new = engineValkey then False else True))"

subsection \<open>Finder\<close>

text \<open>
  The pages of \<^verbatim>\<open>DescribeReplicationGroups\<close> as the paginator yields them, in order:
  each is the error of \<^verbatim>\<open>NextPage\<close> or the replication groups of the page. The loop
  \<^verbatim>\<open>for pages.HasMorePages()\<close> of \<^verbatim>\<open>findReplicationGroups\<close> takes them one by one.
\<close>

fun findReplicationGroups_loop ::
  "(go_error + 'rg list) list \<Rightarrow> ('rg \<Rightarrow> bool) \<Rightarrow> 'rg list \<Rightarrow> go_error + 'rg list" where
  "findReplicationGroups_loop [] flt output = Inr output"
| "findReplicationGroups_loop (Inl err # pages) flt output =
     (if IsA ReplicationGroupNotFoundFault (Some err) then Inl (NotFoundError err) else Inl err)"
| "findReplicationGroups_loop (Inr page # pages) flt output =
     findReplicationGroups_loop pages flt (output @ List.filter flt page)"

definition findReplicationGroups ::
  "(go_error + 'rg list) list \<Rightarrow> ('rg \<Rightarrow> bool) \<Rightarrow> go_error + 'rg list" where
  "findReplicationGroups pages flt = findReplicationGroups_loop pages flt []"

text \<open>
  Modelled from the spec: \<^verbatim>\<open>tfresource.AssertSingleValueResult\<close> of the package
  \<^verbatim>\<open>internal/tfresource\<close>, which is not among the sources at hand: "fail with a
  distinguished multiple results error if more than one match is found, or no results if
  zero".
\<close>

definition AssertSingleValueResult :: "'a list \<Rightarrow> go_error + 'a" where
  "AssertSingleValueResult a =
     (if length a = 0 then Inl EmptyResultError
      else if length a > 1 then Inl (TooManyResultsError (length a))
      else (case a of v # _ \<Rightarrow> Inr v | [] \<Rightarrow> Inl EmptyResultError))"

definition findReplicationGroup ::
  "(go_error + 'rg list) list \<Rightarrow> ('rg \<Rightarrow> bool) \<Rightarrow> go_error + 'rg" where
  "findReplicationGroup pages flt =
     (case findReplicationGroups pages flt of
        Inl err \<Rightarrow> Inl err
      | Inr output \<Rightarrow> AssertSingleValueResult output)"

subsection \<open>Delete\<close>

text \<open>
  Modelled from the spec: \<^verbatim>\<open>tfresource.RetryWhenIsA[T](ctx, timeout, f)\<close> of the package
  \<^verbatim>\<open>internal/tfresource\<close>, which is not among the sources at hand: "tolerating a
  transient fault by retrying for a bounded window". The call is made again while its
  error is a fault of type \<open>T\<close> and the window, which opens with the first call and lasts
  \<open>timeout\<close>, has not closed; the result of the last call is returned.
\<close>

function RetryWhenIsA_loop ::
  "remote \<Rightarrow> fault_type \<Rightarrow> duration \<Rightarrow> action \<Rightarrow> world \<Rightarrow> go_error option \<times> world" where
  "RetryWhenIsA_loop env T deadline f w =
     (if IsA T (fst (perform env f w)) \<and> clock (snd (perform env f w)) < deadline
      then RetryWhenIsA_loop env T deadline f (snd (perform env f w))
      else perform env f w)"
  by pat_completeness auto
termination
  by (relation "measure (\<lambda>(env, T, deadline, f, w). deadline - clock w)")
     (auto simp: perform_def Let_def)

declare RetryWhenIsA_loop.simps [simp del]

definition RetryWhenIsA ::
  "remote \<Rightarrow> fault_type \<Rightarrow> duration \<Rightarrow> action \<Rightarrow> world \<Rightarrow> go_error option \<times> world" where
  "RetryWhenIsA env T timeout f w = RetryWhenIsA_loop env T (clock w + timeout) f w"

definition disassociateReplicationGroup ::
  "remote \<Rightarrow> string \<Rightarrow> string \<Rightarrow> string \<Rightarrow> duration \<Rightarrow> world \<Rightarrow> go_error option \<times> world" where
  "disassociateReplicationGroup env globalReplicationGroupID replicationGroupID region timeout w =
     (let input = \<lparr>dg_GlobalReplicationGroupId = Some globalReplicationGroupID,
                   dg_ReplicationGroupId = Some replicationGroupID,
                   dg_ReplicationGroupRegion = Some region\<rparr>;
          (err, w1) = RetryWhenIsA env InvalidGlobalReplicationGroupStateFault timeout
                        (DisassociateGlobalReplicationGroup input) w
      in if IsA GlobalReplicationGroupNotFoundFault err then (None, w1)
         else if IsAErrorMessageContains InvalidParameterValueException err
                   ''is not associated with Global Replication Group''
         then (None, w1)
         else case err of
                Some e \<Rightarrow>
                  (Some (ErrorfW (''disassociating ElastiCache Replication Group (''
                                   @ replicationGroupID @ '') from Global Replication Group (''
                                   @ globalReplicationGroupID @ '')'') e), w1)
              | None \<Rightarrow>
                  (let (err, w2) = perform env
                         (WaitGlobalReplicationGroupMemberDetached globalReplicationGroupID
                            replicationGroupID timeout) w1
                   in case err of
                        Some e \<Rightarrow>
                          (Some (ErrorfW (''waiting for ElastiCache Replication Group (''
                                           @ replicationGroupID @ '') detach'') e), w2)
                      | None \<Rightarrow> (None, w2)))"

text \<open>
  What the provider gives to every call: the region and the partition of the client and
  the tags that \<^verbatim>\<open>getTagsIn(ctx)\<close> finds in the context (a nil slice is \<open>None\<close>).
\<close>

record provider_meta =
  Region :: string
  Partition :: string
  TagsIn :: "tags option"

text \<open>
  \<^verbatim>\<open>deleteParameterGroup\<close> belongs to the parameter group resource; it is one
  interaction here.
\<close>

definition resourceReplicationGroupDelete ::
  "remote \<Rightarrow> provider_meta \<Rightarrow> resource_data \<Rightarrow> world \<Rightarrow> diagnostics \<times> world" where
  "resourceReplicationGroupDelete env meta d w =
     (let diags = [];
          (v, hasGlobalReplicationGroupID) = GetOkString d ''global_replication_group_id'';
          (err, w1) =
            (if hasGlobalReplicationGroupID
             then disassociateReplicationGroup env v (Id d) (Region meta) (Timeout d TimeoutDelete) w
             else (None, w))
      in case err of
           Some e \<Rightarrow> (AppendFromErr diags e, w1)
         | None \<Rightarrow>
            (let input = \<lparr>di_ReplicationGroupId = Some (Id d), di_FinalSnapshotIdentifier = None\<rparr>;
                 input = (let (v, ok) = GetOkString d AttrFinalSnapshotIdentifier
                          in if ok then input\<lparr>di_FinalSnapshotIdentifier := Some v\<rparr> else input);
                 timeout = 10 * Minute;
                 (err, w2) = RetryWhenIsA env InvalidReplicationGroupStateFault timeout
                               (DeleteReplicationGroup input) w1;
                 (returned, w3) =
                   (if IsA ReplicationGroupNotFoundFault err then (None, w2)
                    else case err of
                           Some e \<Rightarrow>
                             (Some (AppendErrorf diags
                                (''deleting ElastiCache Replication Group ('' @ Id d @ '')'') e), w2)
                         | None \<Rightarrow>
                             (let (err, w3) = perform env
                                    (WaitReplicationGroupDeleted (Id d) (Timeout d TimeoutDelete)) w2
                              in case err of
                                   Some e \<Rightarrow>
                                     (Some (AppendErrorf diags
                                        (''waiting for ElastiCache Replication Group ('' @ Id d
                                         @ '') delete'') e), w3)
                                 | None \<Rightarrow> (None, w3)))
             in case returned of
                  Some ds \<Rightarrow> (ds, w3)
                | None \<Rightarrow>
                    (if hasGlobalReplicationGroupID
                     then (let paramGroupName = GetString d AttrParameterGroupName
                           in if paramGroupName \<noteq> []
                              then (let (err, w4) = perform env (DeleteParameterGroup paramGroupName) w3
                                    in case err of
                                         Some e \<Rightarrow> (AppendFromErr diags e, w4)
                                       | None \<Rightarrow> (diags, w4))
                              else (diags, w3))
                     else (diags, w3))))"

subsection \<open>Create\<close>

text \<open>
  Modelled from the spec: \<^verbatim>\<open>errs.IsUnsupportedOperationInPartitionError\<close> of the package
  \<^verbatim>\<open>internal/errs\<close>, which is not among the sources at hand: the error is the
  distinguished "unsupported operation in this partition" fault.
\<close>

definition IsUnsupportedOperationInPartitionError :: "string \<Rightarrow> go_error option \<Rightarrow> bool" where
  "IsUnsupportedOperationInPartitionError part err = IsA UnsupportedOperation err"

text \<open>\<^verbatim>\<open>gocty.FromCtyValue(v, &int32)\<close> fails on a number outside the 32 bits.\<close>

definition FromCtyValue_int32 :: "cty_value \<Rightarrow> go_error option" where
  "FromCtyValue_int32 v =
     (case v of
        CtyNumber n \<Rightarrow>
          (if - (2 ^ 31) \<le> n \<and> n < 2 ^ 31 then None
           else Some (ErrorString ''value must be a whole number, between -2147483648 and 2147483647''))
      | _ \<Rightarrow> Some (ErrorString ''value is not a known number''))"

definition len_tags :: "tags option \<Rightarrow> nat" where
  "len_tags ts = (case ts of None \<Rightarrow> 0 | Some l \<Rightarrow> length l)"

text \<open>
  \<^verbatim>\<open>resourceReplicationGroupCreate\<close>. Of the request, the model keeps the identifier, the
  tags and the fields of the branch on \<^verbatim>\<open>global_replication_group_id\<close>; the other fields
  copy one attribute each. The result is the diagnostics, the resource data (with the
  identifier that \<^verbatim>\<open>d.SetId\<close> stored) and the state of the environment.
\<close>

definition resourceReplicationGroupCreate ::
  "remote \<Rightarrow> provider_meta \<Rightarrow> resource_data \<Rightarrow> world \<Rightarrow> diagnostics \<times> resource_data \<times> world" where
  "resourceReplicationGroupCreate env meta d w =
     (let diags = [];
          part = Partition meta;
          replicationGroupID = GetString d ''replication_group_id'';
          input = \<lparr>ci_ReplicationGroupId = Some replicationGroupID,
                   ci_Tags = TagsIn meta,
                   ci_GlobalReplicationGroupId = None,
                   ci_CacheNodeType = None,
                   ci_Engine = None\<rparr>;
          (v, ok) = GetOkString d ''global_replication_group_id'';
          nodeType = GetString d ''node_type''
      in if \<not> ok \<and> nodeType = []
         then (AppendErrorMessage diags
                 (dquote ''node_type'' @ '' is required unless ''
                  @ dquote ''global_replication_group_id'' @ '' is set.''), d, w)
         else
          (let input = (if ok then input\<lparr>ci_GlobalReplicationGroupId := Some v\<rparr>
                        else input\<lparr>ci_CacheNodeType := Some nodeType,
                                   ci_Engine := Some (GetString d AttrEngine)\<rparr>);
               rawReplicasPerNodeGroup = RawConfig d ''replicas_per_node_group'';
               diags = (if rawReplicasPerNodeGroup \<noteq> CtyUnknown \<and> rawReplicasPerNodeGroup \<noteq> CtyNull
                        then (case FromCtyValue_int32 rawReplicasPerNodeGroup of
                                Some e \<Rightarrow> AppendErrorf diags ''Invalid Value'' e
                              | None \<Rightarrow> diags)
                        else diags);
               k = length (log w);
               (err, w1) = perform env (CreateReplicationGroup input) w;
               (input, k, err, w1) =
                 (if ci_Tags input \<noteq> None \<and> IsUnsupportedOperationInPartitionError part err
                  then (let input = input\<lparr>ci_Tags := None\<rparr>;
                            k = length (log w1);
                            (err, w2) = perform env (CreateReplicationGroup input) w1
                        in (input, k, err, w2))
                  else (input, k, err, w1))
           in case err of
                Some e \<Rightarrow>
                  (AppendErrorf diags (''creating ElastiCache Replication Group (''
                                        @ replicationGroupID @ '')'') e, d, w1)
              | None \<Rightarrow>
                 (let output = created env k;
                      d = d\<lparr>Id := out_ReplicationGroupId output\<rparr>;
                      (err, w2) = perform env
                        (WaitReplicationGroupAvailable (Id d) (Timeout d TimeoutCreate) (30 * Second)) w1
                  in case err of
                       Some e \<Rightarrow>
                         (AppendErrorf diags (''waiting for ElastiCache Replication Group ('' @ Id d
                                               @ '') create'') e, d, w2)
                     | None \<Rightarrow>
                        (let (err, w3) =
                               (if ok then perform env (WaitGlobalReplicationGroupAvailable v) w2
                                else (None, w2))
                         in case err of
                              Some e \<Rightarrow>
                                (AppendErrorf diags
                                   (''waiting for ElastiCache Global Replication Group ('' @ v
                                    @ '') available'') e, d, w3)
                            | None \<Rightarrow>
                               (let tags = TagsIn meta
                                in if ci_Tags input = None \<and> len_tags tags > 0
                                   then
                                    (let (err, w4) = perform env
                                           (CreateTags (out_ARN output) (case tags of None \<Rightarrow> [] | Some ts \<Rightarrow> ts)) w3;
                                         (tv, tok) = GetOkMap d AttrTags
                                     in if (\<not> tok \<or> card (dom tv) = 0)
                                           \<and> IsUnsupportedOperationInPartitionError part err
                                        then (let (rd, w5) = resourceReplicationGroupRead env d w4
                                              in (diags @ rd, d, w5))
                                        else case err of
                                               Some e \<Rightarrow>
                                                 (AppendErrorf diags
                                                    (''setting ElastiCache Replication Group (''
                                                     @ Id d @ '') tags'') e, d, w4)
                                             | None \<Rightarrow>
                                                 (let (rd, w5) = resourceReplicationGroupRead env d w4
                                                  in (diags @ rd, d, w5)))
                                   else (let (rd, w4) = resourceReplicationGroupRead env d w3
                                         in (diags @ rd, d, w4)))))))"

subsection \<open>Status and waiter\<close>

definition replicationGroupStatusAvailable :: string where
  "replicationGroupStatusAvailable = ''available''"
definition replicationGroupStatusCreateFailed :: string where
  "replicationGroupStatusCreateFailed = ''create-failed''"
definition replicationGroupStatusCreating :: string where
  "replicationGroupStatusCreating = ''creating''"
definition replicationGroupStatusDeleting :: string where
  "replicationGroupStatusDeleting = ''deleting''"
definition replicationGroupStatusModifying :: string where
  "replicationGroupStatusModifying = ''modifying''"
definition replicationGroupStatusSnapshotting :: string where
  "replicationGroupStatusSnapshotting = ''snapshotting''"

text \<open>The constants of the status block, in the order of their declaration.\<close>

definition replicationGroupStatus_values :: "string list" where
  "replicationGroupStatus_values =
     [replicationGroupStatusAvailable, replicationGroupStatusCreateFailed,
      replicationGroupStatusCreating, replicationGroupStatusDeleting,
      replicationGroupStatusModifying, replicationGroupStatusSnapshotting]"

record ReplicationGroup =
  rg_ReplicationGroupId :: string
  rg_Status :: string

definition findReplicationGroupByID ::
  "(go_error + ReplicationGroup list) list \<Rightarrow> go_error + ReplicationGroup" where
  "findReplicationGroupByID pages = findReplicationGroup pages (\<lambda>v. True)"

text \<open>
  Modelled from the spec: \<^verbatim>\<open>retry.NotFound(err)\<close> of the package \<^verbatim>\<open>internal/retry\<close>,
  which is not among the sources at hand: the error is the distinguished not-found error
  of a finder (no results counts as not found).
\<close>

fun retry_NotFound :: "go_error \<Rightarrow> bool" where
  "retry_NotFound (NotFoundError e) = True"
| "retry_NotFound EmptyResultError = True"
| "retry_NotFound (ErrorfW ctx e) = retry_NotFound e"
| "retry_NotFound e = False"

text \<open>
  \<^verbatim>\<open>statusReplicationGroup\<close>: the refresh function of the waiters, applied to the pages
  that the remote lists at the time of the poll. Its result is Go's triple of the object,
  the state and the error.
\<close>

definition statusReplicationGroup ::
  "(go_error + ReplicationGroup list) list
     \<Rightarrow> ReplicationGroup option \<times> string \<times> go_error option" where
  "statusReplicationGroup pages =
     (case findReplicationGroupByID pages of
        Inl err \<Rightarrow> if retry_NotFound err then (None, [], None) else (None, [], Some err)
      | Inr output \<Rightarrow> (Some output, rg_Status output, None))"

record StateChangeConf =
  Pending :: "string list"
  Target :: "string list"
  sc_Timeout :: duration
  MinTimeout :: duration
  Delay :: duration

text \<open>
  What a waiter polls: the pages the remote lists at the k-th poll, and how long that
  poll takes beyond one millisecond.
\<close>

record polled =
  pages_at :: "nat \<Rightarrow> (go_error + ReplicationGroup list) list"
  poll_latency :: "nat \<Rightarrow> duration"

text \<open>
  The run of a waiter: the object and the error it returns, and the states its polls
  observed, in order.
\<close>

record wait_run =
  wr_output :: "ReplicationGroup option"
  wr_error :: "go_error option"
  wr_observed :: "string list"

text \<open>
  Modelled from the spec: \<^verbatim>\<open>WaitForStateContext\<close> of \<^verbatim>\<open>retry.StateChangeConf\<close>
  (package \<^verbatim>\<open>internal/retry\<close>), which is not among the sources at hand: a
  "single-threaded polling loop; each tick calls Finder, maps the returned status into
  pending (keep waiting), target (success, return object), or unlisted (treat as failure)",
  with "an initial delay before the first poll", "a minimum inter-poll interval" and, "on
  expiry", "the last observed object and an explicit wait timed out in state X error".
  The loop is at the k-th poll, \<open>elapsed\<close> after the start of the wait; \<open>lastObject\<close> and
  \<open>seen\<close> are the object of the last poll and the states observed so far.
\<close>

function WaitForStateContext_loop ::
  "StateChangeConf \<Rightarrow> polled \<Rightarrow> nat \<Rightarrow> duration \<Rightarrow> ReplicationGroup option \<Rightarrow> string list
     \<Rightarrow> wait_run" where
  "WaitForStateContext_loop conf env k elapsed lastObject seen =
     (if sc_Timeout conf \<le> elapsed
      then \<lparr>wr_output = lastObject,
            wr_error = Some (TimeoutError (if seen = [] then [] else List.last seen)),
            wr_observed = seen\<rparr>
      else
       (case statusReplicationGroup (pages_at env k) of
          (output, state, Some err) \<Rightarrow>
            \<lparr>wr_output = None, wr_error = Some err, wr_observed = seen @ [state]\<rparr>
        | (output, state, None) \<Rightarrow>
            (if List.member (Target conf) state
             then \<lparr>wr_output = output, wr_error = None, wr_observed = seen @ [state]\<rparr>
             else if List.member (Pending conf) state
             then WaitForStateContext_loop conf env (Suc k)
                    (elapsed + Suc (poll_latency env k) + MinTimeout conf) output (seen @ [state])
             else \<lparr>wr_output = output, wr_error = Some (UnexpectedStateError state),
                   wr_observed = seen @ [state]\<rparr>)))"
  by pat_completeness auto
termination
  by (relation "measure (\<lambda>(conf, env, k, elapsed, lastObject, seen). sc_Timeout conf - elapsed)") auto

declare WaitForStateContext_loop.simps [simp del]

definition WaitForStateContext :: "StateChangeConf \<Rightarrow> polled \<Rightarrow> wait_run" where
  "WaitForStateContext conf env = WaitForStateContext_loop conf env 0 (Delay conf) None []"

definition waitReplicationGroupAvailable :: "polled \<Rightarrow> duration \<Rightarrow> duration \<Rightarrow> wait_run" where
  "waitReplicationGroupAvailable env timeout delay =
     (let stateConf = \<lparr>Pending = [replicationGroupStatusCreating,
                                  replicationGroupStatusModifying,
                                  replicationGroupStatusSnapshotting],
                       Target = [replicationGroupStatusAvailable],
                       sc_Timeout = timeout,
                       MinTimeout = 10 * Second,
                       Delay = delay\<rparr>
      in WaitForStateContext stateConf env)"

subsection \<open>Reading a run\<close>

text \<open>The shard configuration requests among the interactions of a run, in order.\<close>

fun shardConfigurationRequests ::
  "(action \<times> go_error option) list \<Rightarrow> ModifyReplicationGroupShardConfigurationInput list" where
  "shardConfigurationRequests [] = []"
| "shardConfigurationRequests ((ModifyReplicationGroupShardConfiguration input, r) # tr) =
     input # shardConfigurationRequests tr"
| "shardConfigurationRequests (x # tr) = shardConfigurationRequests tr"

text \<open>
  The number that a node group identifier denotes: its decimal value, with the sign
  when there is one.
\<close>

definition digits_value :: "string \<Rightarrow> nat" where
  "digits_value s = foldl (\<lambda>a c. 10 * a + (of_char c - 48)) 0 s"

definition node_group_number :: "string \<Rightarrow> int" where
  "node_group_number s =
     (case s of
        [] \<Rightarrow> 0
      | c # cs \<Rightarrow> if c = CHR ''-'' then - int (digits_value cs) else int (digits_value s))"

definition is_digit :: "char \<Rightarrow> bool" where
  "is_digit c = (48 \<le> (of_char c :: nat) \<and> (of_char c :: nat) \<le> 57)"

subsection \<open>Concrete inputs\<close>

text \<open>
  An environment in which every call succeeds at once, the state before a run, and a
  resource in which no attribute changes.
\<close>

definition quiet :: remote where
  "quiet = \<lparr>respond = (\<lambda>k a. None),
            latency = (\<lambda>k. 0),
            created = (\<lambda>k. \<lparr>out_ReplicationGroupId = ''rg'', out_ARN = ''arn:rg''\<rparr>),
            read_diags = (\<lambda>k. [])\<rparr>"

definition start :: world where
  "start = \<lparr>log = [], clock = 0\<rparr>"

definition unchanged :: resource_data where
  "unchanged = \<lparr>Id = ''rg'',
                Timeout = (\<lambda>k. 40 * Minute),
                bools = (\<lambda>key. (False, False)),
                ints = (\<lambda>key. (0, 0)),
                strs = (\<lambda>key. ([], [])),
                lists = (\<lambda>key. ([], [])),
                sets = (\<lambda>key. ({}, {})),
                resource_sets = (\<lambda>key. ({}, {})),
                maps = (\<lambda>key. (Map.empty, Map.empty)),
                RawConfig = (\<lambda>key. CtyNull)\<rparr>"

text \<open>\<^verbatim>\<open>num_node_groups\<close> goes from 5 to 2.\<close>

definition shrink_5_to_2 :: resource_data where
  "shrink_5_to_2 = unchanged\<lparr>ints := (ints unchanged)(''num_node_groups'' := (5, 2))\<rparr>"

text \<open>
  Three listings of two pages each, in which no group, one group and two groups are
  available.
\<close>

definition listing_none :: "ReplicationGroup list list" where
  "listing_none =
     [[\<lparr>rg_ReplicationGroupId = ''a'', rg_Status = ''creating''\<rparr>],
      [\<lparr>rg_ReplicationGroupId = ''b'', rg_Status = ''modifying''\<rparr>]]"

definition listing_one :: "ReplicationGroup list list" where
  "listing_one =
     [[\<lparr>rg_ReplicationGroupId = ''a'', rg_Status = ''creating''\<rparr>],
      [\<lparr>rg_ReplicationGroupId = ''b'', rg_Status = ''available''\<rparr>]]"

definition listing_two :: "ReplicationGroup list list" where
  "listing_two =
     [[\<lparr>rg_ReplicationGroupId = ''a'', rg_Status = ''available''\<rparr>],
      [\<lparr>rg_ReplicationGroupId = ''b'', rg_Status = ''available''\<rparr>]]"

text \<open>
  Modelled from the spec: the values of Status that the data model of the specification
  enumerates.
\<close>

definition spec_Status_values :: "string list" where
  "spec_Status_values = [''creating'', ''available'', ''modifying'', ''snapshotting'', ''deleting'']"

text \<open>
  What three waiters poll: a group that is available at the third poll, a group that
  stays in creation, and a group whose creation has failed at the second poll.
\<close>

definition available_at_third :: polled where
  "available_at_third =
     \<lparr>pages_at = (\<lambda>k. [Inr [\<lparr>rg_ReplicationGroupId = ''rg'',
                               rg_Status = (if k < 2 then ''creating'' else ''available'')\<rparr>]]),
      poll_latency = (\<lambda>k. 0)\<rparr>"

definition always_creating :: polled where
  "always_creating =
     \<lparr>pages_at = (\<lambda>k. [Inr [\<lparr>rg_ReplicationGroupId = ''rg'', rg_Status = ''creating''\<rparr>]]),
      poll_latency = (\<lambda>k. 0)\<rparr>"

definition failed_at_second :: polled where
  "failed_at_second =
     \<lparr>pages_at = (\<lambda>k. [Inr [\<lparr>rg_ReplicationGroupId = ''rg'',
                               rg_Status = (if k < 1 then ''creating'' else ''create-failed'')\<rparr>]]),
      poll_latency = (\<lambda>k. 0)\<rparr>"

section \<open>Properties\<close>

subsection \<open>Shard identifiers\<close>

lemma digits_value_append:
  "digits_value (xs @ [c]) = 10 * digits_value xs + (of_char c - 48)"
  by (simp add: digits_value_def)

lemma digits_value_decimal: "digits_value (decimal n) = n"
proof (induction n rule: decimal.induct)
  case (1 n)
  show ?case
  proof (cases "n < 10")
    case True
    then show ?thesis
      by (subst decimal.simps) (simp add: digits_value_def)
  next
    case False
    with 1 have "digits_value (decimal (n div 10)) = n div 10" by simp
    with False show ?thesis
      by (subst decimal.simps) (simp add: digits_value_append)
  qed
qed

lemma digits_value_zeros: "digits_value (replicate k CHR ''0'' @ s) = digits_value s"
proof -
  have "foldl (\<lambda>a c. 10 * a + (of_char c - 48)) 0 (replicate k CHR ''0'') = (0::nat)"
    by (induction k) simp_all
  then show ?thesis by (simp add: digits_value_def)
qed

lemma decimal_digits: "c \<in> set (decimal n) \<Longrightarrow> is_digit c"
proof (induction n rule: decimal.induct)
  case (1 n)
  show ?case
  proof (cases "n < 10")
    case True
    with 1(2) show ?thesis
      by (subst (asm) decimal.simps) (simp add: is_digit_def)
  next
    case False
    with 1 show ?thesis
      by (subst (asm) (2) decimal.simps) (auto simp: is_digit_def)
  qed
qed

lemma decimal_nonempty: "decimal n \<noteq> []"
  by (subst decimal.simps) simp

lemma length_decimal: "n < 10 ^ k \<Longrightarrow> 0 < k \<Longrightarrow> length (decimal n) \<le> k"
proof (induction n arbitrary: k rule: decimal.induct)
  case (1 n)
  show ?case
  proof (cases "n < 10")
    case True
    with 1(3) show ?thesis by (subst decimal.simps) simp
  next
    case False
    then obtain j where k: "k = Suc j" and j: "0 < j"
      using 1(2,3) by (cases k; cases "k - 1") auto
    have "n div 10 < 10 ^ j" using 1(2) k by (simp add: less_mult_imp_div_less)
    with 1(1) False j have "length (decimal (n div 10)) \<le> j" by simp
    with False k show ?thesis by (subst decimal.simps) simp
  qed
qed

lemma node_group_number_Sprintf: "node_group_number (Sprintf_04d i) = i"
proof (cases "i < 0")
  case True
  then show ?thesis
    by (simp add: node_group_number_def Sprintf_04d_def Let_def digits_value_zeros digits_value_decimal)
next
  case False
  let ?ds = "decimal (nat \<bar>i\<bar>)"
  let ?s = "replicate (4 - length ?ds) CHR ''0'' @ ?ds"
  obtain c cs where s: "?s = c # cs"
    using decimal_nonempty [of "nat \<bar>i\<bar>"] by (cases ?s) auto
  have "c \<in> set ?s" using s by simp
  then have "is_digit c" by (auto dest: decimal_digits simp: is_digit_def)
  then have "c \<noteq> CHR ''-''" by (auto simp: is_digit_def)
  moreover have "digits_value ?s = nat \<bar>i\<bar>" by (simp add: digits_value_zeros digits_value_decimal)
  ultimately show ?thesis using False s
    by (simp add: node_group_number_def Sprintf_04d_def Let_def)
qed

lemma Sprintf_04d_four_digits:
  assumes "0 \<le> i" "i \<le> 9999"
  shows "length (Sprintf_04d i) = 4 \<and> list_all is_digit (Sprintf_04d i)"
proof -
  have "nat \<bar>i\<bar> < 10 ^ 4" using assms by simp
  then have "length (decimal (nat \<bar>i\<bar>)) \<le> 4" by (rule length_decimal) simp
  then show ?thesis using assms
    by (auto simp: Sprintf_04d_def Let_def list_all_iff is_digit_def dest: decimal_digits)
qed

lemma nodeGroupsToRemove_loop_eq:
  "nodeGroupsToRemove_loop i n acc = acc @ map Sprintf_04d (rev [n + 1..i])"
proof (induction i n acc rule: nodeGroupsToRemove_loop.induct)
  case (1 i n acc)
  show ?case
  proof (cases "i > n")
    case True
    then have "[n + 1..i] = [n + 1..i - 1] @ [i]" by (simp add: upto_rec2)
    with 1 True show ?thesis by (subst nodeGroupsToRemove_loop.simps) simp
  next
    case False
    then show ?thesis by (subst nodeGroupsToRemove_loop.simps) simp
  qed
qed

lemma since_perform:
  "since w (snd (perform env a w)) = [(a, respond env (length (log w)) a)]"
  by (simp add: since_def perform_def Let_def)

lemma log_perform: "log (snd (perform env a w)) = log w @ [(a, respond env (length (log w)) a)]"
  by (simp add: perform_def Let_def)

lemma numNodeGroups_requests:
  assumes "GetChangeInt d argument = (oldCount, newCount)" "newCount < oldCount"
  shows "shardConfigurationRequests
           (since w (snd (modifyReplicationGroupShardConfigurationNumNodeGroups env d argument w))) =
         [\<lparr>ApplyImmediately = Some True,
           NodeGroupCount = Some (int32 newCount),
           NodeGroupsToRemove = map Sprintf_04d (rev [newCount + 1..oldCount]),
           ReplicationGroupId = Some (Id d)\<rparr>]"
  using assms
  by (simp add: modifyReplicationGroupShardConfigurationNumNodeGroups_def Let_def
      nodeGroupsToRemove_loop_eq since_def perform_def split: option.splits prod.splits)

text \<open>
  C4. A topology shrink from \<open>oldCount\<close> node groups to a smaller \<open>newCount\<close> sends one
  shard configuration request. It carries the new count (as the 32 bit number it is
  converted to, which is the count itself when that fits) and, as the node groups to
  remove, the identifiers of the groups numbered \<open>oldCount\<close> down to \<open>newCount + 1\<close>:
  each identifier denotes its number, no identifier is listed twice, and for counts of at
  most 9999 every identifier is four decimal digits.
\<close>

theorem shard_shrink_removes_highest:
  assumes "GetChangeInt d argument = (oldCount, newCount)" and "newCount < oldCount"
  shows "shardConfigurationRequests
           (since w (snd (modifyReplicationGroupShardConfigurationNumNodeGroups env d argument w))) =
         [\<lparr>ApplyImmediately = Some True,
           NodeGroupCount = Some (int32 newCount),
           NodeGroupsToRemove = map Sprintf_04d (rev [newCount + 1..oldCount]),
           ReplicationGroupId = Some (Id d)\<rparr>]
       \<and> map node_group_number (map Sprintf_04d (rev [newCount + 1..oldCount]))
           = rev [newCount + 1..oldCount]
       \<and> node_group_number ` set (map Sprintf_04d (rev [newCount + 1..oldCount]))
           = {newCount + 1..oldCount}
       \<and> distinct (map Sprintf_04d (rev [newCount + 1..oldCount]))
       \<and> (0 \<le> newCount \<and> oldCount \<le> 9999 \<longrightarrow>
            list_all (\<lambda>s. length s = 4 \<and> list_all is_digit s)
              (map Sprintf_04d (rev [newCount + 1..oldCount])))
       \<and> (- (2 ^ 31) \<le> newCount \<and> newCount < 2 ^ 31 \<longrightarrow> sint (int32 newCount) = newCount)"
proof -
  let ?ids = "map Sprintf_04d (rev [newCount + 1..oldCount])"
  have num: "map node_group_number ?ids = rev [newCount + 1..oldCount]"
    by (simp add: node_group_number_Sprintf comp_def)
  have "inj Sprintf_04d"
    by (rule inj_on_inverseI [where g = node_group_number]) (simp add: node_group_number_Sprintf)
  then have dist: "distinct ?ids" by (simp add: distinct_map inj_on_def)
  have img: "node_group_number ` set ?ids = {newCount + 1..oldCount}"
    using num by (metis set_map set_rev set_upto)
  have four: "0 \<le> newCount \<and> oldCount \<le> 9999 \<longrightarrow>
      list_all (\<lambda>s. length s = 4 \<and> list_all is_digit s) ?ids"
  proof (intro impI, unfold list_all_iff, intro ballI)
    fix s
    assume r: "0 \<le> newCount \<and> oldCount \<le> 9999"
      and s: "s \<in> set (map Sprintf_04d (rev [newCount + 1..oldCount]))"
    from s obtain i where i: "s = Sprintf_04d i" "newCount + 1 \<le> i" "i \<le> oldCount" by auto
    with r have "0 \<le> i" "i \<le> 9999" by auto
    from Sprintf_04d_four_digits [OF this] i(1)
    show "length s = 4 \<and> Ball (set s) is_digit" by (simp add: list_all_iff)
  qed
  have s: "- (2 ^ 31) \<le> newCount \<and> newCount < 2 ^ 31 \<longrightarrow> sint (int32 newCount) = newCount"
    by (simp add: int32_def sint_sbintrunc' signed_take_bit_int_eq_self)
  from numNodeGroups_requests [OF assms] num img dist four s show ?thesis by blast
qed

theorem shard_shrink_removes_highest_witness:
  "GetChangeInt shrink_5_to_2 ''num_node_groups'' = (5, 2) \<and> (2::int) < 5
   \<and> shardConfigurationRequests
       (since start (snd (modifyReplicationGroupShardConfigurationNumNodeGroups quiet shrink_5_to_2
          ''num_node_groups'' start))) =
     [\<lparr>ApplyImmediately = Some True,
       NodeGroupCount = Some 2,
       NodeGroupsToRemove = [''0005'', ''0004'', ''0003''],
       ReplicationGroupId = Some ''rg''\<rparr>]"
proof -
  have h: "GetChangeInt shrink_5_to_2 ''num_node_groups'' = (5, 2)"
    by (simp add: GetChangeInt_def shrink_5_to_2_def unchanged_def)
  have ids: "Sprintf_04d 5 = ''0005''" "Sprintf_04d 4 = ''0004''" "Sprintf_04d 3 = ''0003''"
    by code_simp+
  have i: "Id shrink_5_to_2 = ''rg''" by (simp add: shrink_5_to_2_def unchanged_def)
  show ?thesis
    using shard_shrink_removes_highest [where d = shrink_5_to_2 and argument = "''num_node_groups''"
        and oldCount = 5 and newCount = 2 and env = quiet and w = start] h
    by (simp add: ids i int32_def)
qed

subsection \<open>Finder\<close>

lemma findReplicationGroups_loop_pages:
  "findReplicationGroups_loop (map Inr ps) flt out = Inr (out @ filter flt (concat ps))"
  by (induction ps arbitrary: out) simp_all

lemma findReplicationGroups_pages:
  "findReplicationGroups (map Inr ps) flt = Inr (filter flt (concat ps))"
  by (simp add: findReplicationGroups_def findReplicationGroups_loop_pages)

text \<open>
  C5. When every page of the listing is read, the finder for a single replication group
  answers by the number of groups, over all pages, that satisfy the predicate: none gives
  the no results error (which counts as not found), two or more give the multiple results
  error, and exactly one gives that group and no error.
\<close>

theorem finder_zero_one_many:
  "(filter flt (concat ps) = [] \<longrightarrow>
      findReplicationGroup (map Inr ps) flt = Inl EmptyResultError \<and> retry_NotFound EmptyResultError)
   \<and> (2 \<le> length (filter flt (concat ps)) \<longrightarrow>
      findReplicationGroup (map Inr ps) flt
        = Inl (TooManyResultsError (length (filter flt (concat ps)))))
   \<and> (\<forall>v. filter flt (concat ps) = [v] \<longrightarrow> findReplicationGroup (map Inr ps) flt = Inr v)"
  by (simp add: findReplicationGroup_def findReplicationGroups_pages AssertSingleValueResult_def)

theorem finder_zero_one_many_witness:
  "filter (\<lambda>v. rg_Status v = ''available'') (concat listing_none) = []
   \<and> findReplicationGroup (map Inr listing_none) (\<lambda>v. rg_Status v = ''available'')
       = Inl EmptyResultError
   \<and> 2 \<le> length (filter (\<lambda>v. rg_Status v = ''available'') (concat listing_two))
   \<and> findReplicationGroup (map Inr listing_two) (\<lambda>v. rg_Status v = ''available'')
       = Inl (TooManyResultsError 2)
   \<and> filter (\<lambda>v. rg_Status v = ''available'') (concat listing_one)
       = [\<lparr>rg_ReplicationGroupId = ''b'', rg_Status = ''available''\<rparr>]
   \<and> findReplicationGroup (map Inr listing_one) (\<lambda>v. rg_Status v = ''available'')
       = Inr \<lparr>rg_ReplicationGroupId = ''b'', rg_Status = ''available''\<rparr>"
  using finder_zero_one_many [of "\<lambda>v. rg_Status v = ''available''" listing_none]
    finder_zero_one_many [of "\<lambda>v. rg_Status v = ''available''" listing_two]
    finder_zero_one_many [of "\<lambda>v. rg_Status v = ''available''" listing_one]
  by (simp add: listing_none_def listing_one_def listing_two_def)

end
